theory Spec2Isabelle
  imports Complex_Main
begin

section \<open>JavaScript values\<close>

text \<open>
  The values that travel through \<open>src/index.ts\<close>: tool arguments, request bodies, response
  bodies and the literal schema objects of the catalog. An object is the list of its own
  properties in enumeration order. A number is the exact value of a finite double, a
  rational (the program prints numbers and tests them for truthiness, and does nothing else
  with them, so that \<open>-0\<close> is \<open>0\<close> here); strings are lists of 8-bit characters.
\<close>

datatype jsval =
    JUndefined
  | JNull
  | JBool bool
  | JNum rat
  | JStr string
  | JArr "jsval list"
  | JObj "(string \<times> jsval) list"

text \<open>Truthiness, as the operator \<open>||\<close> and \<open>!\<close> test it.\<close>

fun truthy :: "jsval \<Rightarrow> bool" where
  "truthy JUndefined = False"
| "truthy JNull = False"
| "truthy (JBool b) = b"
| "truthy (JNum n) = (n \<noteq> 0)"
| "truthy (JStr s) = (s \<noteq> [])"
| "truthy (JArr xs) = True"
| "truthy (JObj kvs) = True"

definition js_or :: "jsval \<Rightarrow> jsval \<Rightarrow> jsval" where
  "js_or a b = (if truthy a then a else b)"

subsection \<open>Decimal numerals\<close>

definition digit_char :: "nat \<Rightarrow> char" where
  "digit_char d = ''0123456789abcdef'' ! (d mod 16)"

fun nat_digits :: "nat \<Rightarrow> string" where
  "nat_digits n = (if n < 10 then [digit_char n] else nat_digits (n div 10) @ [digit_char (n mod 10)])"

declare nat_digits.simps [simp del]

definition int_to_string :: "int \<Rightarrow> string" where
  "int_to_string i = (if i < 0 then CHR ''-'' # nat_digits (nat (- i)) else nat_digits (nat i))"

subsection \<open>\<open>Number::toString\<close>\<close>

text \<open>
  JavaScript writes a number \<open>x\<close> with the fewest digits \<open>s\<close> such that the decimal
  \<open>s * 10 ^ (n - k)\<close> (\<open>k\<close> the number of digits) rounds to \<open>x\<close> as a double, and lays them
  out by the size of \<open>n\<close>: plain digits with zeros up to \<open>10 ^ 21\<close>, a decimal point,
  leading \<open>0.00\<close> down to \<open>10 ^ -6\<close>, the exponent form otherwise. The definitions work on
  a positive fraction \<open>a / b\<close> of integers.
\<close>

fun zeros :: "nat \<Rightarrow> string" where
  "zeros n = (if n = 0 then [] else CHR ''0'' # zeros (n - 1))"

declare zeros.simps [simp del]

text \<open>The number of binary digits of a natural number.\<close>

fun bits :: "nat \<Rightarrow> nat" where
  "bits n = (if n = 0 then 0 else Suc (bits (n div 2)))"

declare bits.simps [simp del]

text \<open>\<open>scaled b p q i\<close> is the fraction \<open>p / q * b ^ i\<close>, for an exponent of either sign.\<close>

definition scaled :: "int \<Rightarrow> int \<Rightarrow> int \<Rightarrow> int \<Rightarrow> int \<times> int" where
  "scaled b p q i = (if 0 \<le> i then (p * b ^ nat i, q) else (p, q * b ^ nat (- i)))"

text \<open>
  The largest \<open>l\<close> with \<open>b ^ l \<le> p / q\<close>, from the numbers of digits \<open>lp\<close> and \<open>lq\<close> of
  \<open>p\<close> and \<open>q\<close> in base \<open>b\<close>.
\<close>

definition floor_log :: "int \<Rightarrow> nat \<Rightarrow> nat \<Rightarrow> int \<Rightarrow> int \<Rightarrow> int" where
  "floor_log b lp lq p q =
     (let l = int lp - int lq
      in if fst (scaled b q p l) \<le> snd (scaled b q p l) then l else l - 1)"

text \<open>The integer nearest to \<open>u / v\<close>, the even one of two that are equally near.\<close>

definition nearest_even :: "int \<Rightarrow> int \<Rightarrow> int" where
  "nearest_even u v =
     (if 2 * (u mod v) < v then u div v
      else if v < 2 * (u mod v) then u div v + 1
      else if even (u div v) then u div v
      else u div v + 1)"

text \<open>
  The double nearest to \<open>p / q\<close>, as a significand of at most 53 bits and a binary exponent
  of at least \<open>-1074\<close>; \<open>None\<close> beyond the largest double.
\<close>

definition to_double :: "int \<Rightarrow> int \<Rightarrow> (int \<times> int) option" where
  "to_double p q =
     (let e = max (floor_log 2 (bits (nat p)) (bits (nat q)) p q - 52) (- 1074);
          m = nearest_even (fst (scaled 2 p q (- e))) (snd (scaled 2 p q (- e)))
      in if 971 < e \<or> (e = 971 \<and> 2 ^ 53 \<le> m) then None else Some (m, e))"

text \<open>The fraction \<open>c\<close> rounds to the double \<open>a / b\<close>.\<close>

definition rounds_to :: "int \<times> int \<Rightarrow> int \<Rightarrow> int \<Rightarrow> bool" where
  "rounds_to c a b =
     (case to_double (fst c) (snd c) of
        None \<Rightarrow> False
      | Some (m, e) \<Rightarrow> fst (scaled 2 m 1 e) * b = a * snd (scaled 2 m 1 e))"

text \<open>
  The digits and the decimal exponent \<open>n\<close> of the shortest decimal that rounds to
  \<open>a / b\<close>: with \<open>k\<close> digits the two decimals around \<open>a / b\<close> are tried, the nearer
  one first, and \<open>k\<close> grows until one of them rounds to \<open>a / b\<close> (17 digits always do).
\<close>

fun shortest :: "nat \<Rightarrow> int \<Rightarrow> int \<Rightarrow> int \<Rightarrow> int \<Rightarrow> int \<times> int" where
  "shortest fuel k a b n =
     (let u = fst (scaled 10 a b (k - n));
          v = snd (scaled 10 a b (k - n));
          f = u div v;
          low_first = (2 * u \<le> (2 * f + 1) * v \<and> (2 * u < (2 * f + 1) * v \<or> even f));
          ok_lo = rounds_to (scaled 10 f 1 (n - k)) a b;
          ok_hi = rounds_to (scaled 10 (f + 1) 1 (n - k)) a b;
          up = (if f + 1 = 10 ^ nat k then (10 ^ nat (k - 1), n + 1) else (f + 1, n))
      in if ok_lo \<and> (low_first \<or> \<not> ok_hi) then (f, n)
         else if ok_hi then up
         else if fuel \<le> 1 then (if low_first then (f, n) else up)
         else shortest (fuel - 1) (k + 1) a b n)"

declare shortest.simps [simp del]

definition exponent_text :: "int \<Rightarrow> string" where
  "exponent_text e = CHR ''e'' # (if 0 \<le> e then CHR ''+'' else CHR ''-'') # nat_digits (nat \<bar>e\<bar>)"

definition format_number :: "int \<Rightarrow> int \<Rightarrow> string" where
  "format_number s n =
     (let ds = nat_digits (nat s); k = int (length ds) in
      if k \<le> n \<and> n \<le> 21 then ds @ zeros (nat (n - k))
      else if 0 < n \<and> n \<le> 21 then take (nat n) ds @ CHR ''.'' # drop (nat n) ds
      else if - 6 < n \<and> n \<le> 0 then ''0.'' @ zeros (nat (- n)) @ ds
      else if k = 1 then ds @ exponent_text (n - 1)
      else hd ds # CHR ''.'' # tl ds @ exponent_text (n - 1))"

definition positive_to_string :: "int \<Rightarrow> int \<Rightarrow> string" where
  "positive_to_string a b =
     (let n = floor_log 10 (length (nat_digits (nat a))) (length (nat_digits (nat b))) a b + 1
      in format_number (fst (shortest 17 1 a b n)) (snd (shortest 17 1 a b n)))"

text \<open>An integer below \<open>2 ^ 53\<close> in magnitude is written with all its digits.\<close>

definition number_to_string :: "rat \<Rightarrow> string" where
  "number_to_string x =
     (let a = fst (quotient_of x); b = snd (quotient_of x) in
      if b = 1 \<and> \<bar>a\<bar> < 2 ^ 53 then int_to_string a
      else if a < 0 then CHR ''-'' # positive_to_string (- a) b
      else positive_to_string a b)"

text \<open>The rationals that are doubles: those that round to themselves.\<close>

definition is_double :: "rat \<Rightarrow> bool" where
  "is_double x =
     (x = 0 \<or> rounds_to (\<bar>fst (quotient_of x)\<bar>, snd (quotient_of x))
                 \<bar>fst (quotient_of x)\<bar> (snd (quotient_of x)))"

subsection \<open>String conversion of a template literal\<close>

fun join :: "string \<Rightarrow> string list \<Rightarrow> string" where
  "join sep [] = []"
| "join sep [x] = x"
| "join sep (x # y # ys) = x @ sep @ join sep (y # ys)"

text \<open>
  \<open>`${v}`\<close> converts \<open>v\<close> with ToString: an array joins its elements with a comma (an
  undefined or null element gives the empty string), a plain object gives
  \<open>[object Object]\<close>.
\<close>

fun to_string :: "jsval \<Rightarrow> string"
  and to_string_elems :: "jsval list \<Rightarrow> string list" where
  "to_string JUndefined = ''undefined''"
| "to_string JNull = ''null''"
| "to_string (JBool b) = (if b then ''true'' else ''false'')"
| "to_string (JNum n) = number_to_string n"
| "to_string (JStr s) = s"
| "to_string (JArr xs) = join '','' (to_string_elems xs)"
| "to_string (JObj kvs) = ''[object Object]''"
| "to_string_elems [] = []"
| "to_string_elems (x # xs) =
     (if x = JUndefined \<or> x = JNull then [] else to_string x) # to_string_elems xs"

subsection \<open>\<open>JSON.stringify(value, null, 2)\<close>\<close>

definition quote_char :: "char \<Rightarrow> string" where
  "quote_char c =
     (if c = CHR 0x08 then [CHR 0x5C, CHR ''b'']
      else if c = CHR 0x09 then [CHR 0x5C, CHR ''t'']
      else if c = CHR 0x0A then [CHR 0x5C, CHR ''n'']
      else if c = CHR 0x0C then [CHR 0x5C, CHR ''f'']
      else if c = CHR 0x0D then [CHR 0x5C, CHR ''r'']
      else if c = CHR 0x22 then [CHR 0x5C, CHR 0x22]
      else if c = CHR 0x5C then [CHR 0x5C, CHR 0x5C]
      else if (of_char c :: nat) < 32 then
        [CHR 0x5C, CHR ''u'', CHR ''0'', CHR ''0'',
         digit_char (of_char c div 16), digit_char (of_char c mod 16)]
      else [c])"

definition quote :: "string \<Rightarrow> string" where
  "quote s = CHR 0x22 # concat (map quote_char s) @ [CHR 0x22]"

definition gap :: string where
  "gap = ''  ''"

text \<open>
  \<open>serialize ind v\<close> is the text of \<open>v\<close> when the current indentation is \<open>ind\<close>;
  \<open>None\<close> stands for the result \<open>undefined\<close>. An undefined array element is written
  \<open>null\<close>, an undefined property is left out.
\<close>

fun serialize :: "string \<Rightarrow> jsval \<Rightarrow> string option"
  and serialize_elems :: "string \<Rightarrow> jsval list \<Rightarrow> string list"
  and serialize_props :: "string \<Rightarrow> (string \<times> jsval) list \<Rightarrow> string list" where
  "serialize ind JUndefined = None"
| "serialize ind JNull = Some ''null''"
| "serialize ind (JBool b) = Some (if b then ''true'' else ''false'')"
| "serialize ind (JNum n) = Some (number_to_string n)"
| "serialize ind (JStr s) = Some (quote s)"
| "serialize ind (JArr xs) =
     (if xs = [] then Some ''[]''
      else Some (''['' @ [CHR 0x0A] @ (ind @ gap)
                 @ join ('','' @ [CHR 0x0A] @ (ind @ gap)) (serialize_elems (ind @ gap) xs)
                 @ [CHR 0x0A] @ ind @ '']''))"
| "serialize ind (JObj kvs) =
     (let partial = serialize_props (ind @ gap) kvs in
      if partial = [] then Some ''{}''
      else Some (''{'' @ [CHR 0x0A] @ (ind @ gap)
                 @ join ('','' @ [CHR 0x0A] @ (ind @ gap)) partial
                 @ [CHR 0x0A] @ ind @ ''}''))"
| "serialize_elems ind [] = []"
| "serialize_elems ind (x # xs) =
     (case serialize ind x of None \<Rightarrow> ''null'' | Some t \<Rightarrow> t) # serialize_elems ind xs"
| "serialize_props ind [] = []"
| "serialize_props ind ((k, v) # kvs) =
     (case serialize ind v of
        None \<Rightarrow> serialize_props ind kvs
      | Some t \<Rightarrow> (quote k @ '': '' @ t) # serialize_props ind kvs)"

definition JSON_stringify :: "jsval \<Rightarrow> string option" where
  "JSON_stringify v = serialize [] v"

section \<open>Errors, requests and the server object\<close>

datatype ErrorCode = ParseError | InvalidRequest | MethodNotFound | InvalidParams | InternalError

record axios_response =
  status :: int
  data :: jsval

text \<open>
  What a \<open>throw\<close> carries. \<open>AxiosError message response\<close> is an error that
  \<open>axios.isAxiosError\<close> recognises; its response is absent when no reply arrived.
\<close>

datatype exn =
    AxiosError string "axios_response option"
  | McpError ErrorCode string
  | TypeError string
  | Error string

fun isAxiosError :: "exn \<Rightarrow> bool" where
  "isAxiosError (AxiosError m r) = True"
| "isAxiosError e = False"

record axios_instance =
  baseURL :: string
  headers :: "(string \<times> string) list"

datatype http_method = GET | POST | PATCH | DELETE

record http_request =
  client :: axios_instance
  verb :: http_method
  url :: string
  body :: "jsval option"

record server_info =
  server_name :: string
  version :: string

record IonosMcpServer =
  server :: server_info
  dnsApiClient :: axios_instance
  domainsApiClient :: axios_instance
  sslApiClient :: axios_instance

text \<open>The state a call sees: the server object and the requests that have left the process.\<close>

record state =
  this :: IonosMcpServer
  sent :: "http_request list"

text \<open>The remote service answers a request with a response or makes the call throw.\<close>

type_synonym remote = "http_request \<Rightarrow> exn + axios_response"

record content_item =
  type :: string
  text' :: "string option"

record tool_result =
  content :: "content_item list"
  isError :: "bool option"

section \<open>The tool catalog\<close>

record tool =
  name :: string
  description :: string
  inputSchema :: jsval

definition id_schema :: "string \<Rightarrow> string \<Rightarrow> jsval" where
  "id_schema field descr =
     JObj [(''type'', JStr ''object''),
           (''properties'',
              JObj [(field, JObj [(''type'', JStr ''string''), (''description'', JStr descr)])]),
           (''required'', JArr [JStr field]),
           (''additionalProperties'', JBool False)]"

definition empty_schema :: jsval where
  "empty_schema =
     JObj [(''type'', JStr ''object''),
           (''properties'', JObj []),
           (''additionalProperties'', JBool False)]"

text \<open>The list that the handler of \<open>ListToolsRequestSchema\<close> returns, in its order.\<close>

definition tools :: "tool list" where
  "tools =
    [\<lparr>name = ''list_dns_zones'', description = ''List all DNS zones'',
      inputSchema = empty_schema\<rparr>,
     \<lparr>name = ''get_dns_zone'', description = ''Get details of a specific DNS zone'',
      inputSchema = id_schema ''zoneId'' ''ID of the DNS zone''\<rparr>,
     \<lparr>name = ''update_dns_zone'', description = ''Update a DNS zone with new records'',
      inputSchema =
        JObj [(''type'', JStr ''object''),
              (''properties'',
                 JObj [(''zoneId'',
                          JObj [(''type'', JStr ''string''),
                                (''description'', JStr ''ID of the DNS zone'')]),
                       (''records'',
                          JObj [(''type'', JStr ''array''),
                                (''description'', JStr ''Array of DNS records to update''),
                                (''items'',
                                   JObj [(''type'', JStr ''object''),
                                         (''properties'',
                                            JObj [(''name'', JObj [(''type'', JStr ''string'')]),
                                                  (''type'', JObj [(''type'', JStr ''string'')]),
                                                  (''content'', JObj [(''type'', JStr ''string'')]),
                                                  (''ttl'', JObj [(''type'', JStr ''number'')]),
                                                  (''prio'', JObj [(''type'', JStr ''number'')]),
                                                  (''disabled'', JObj [(''type'', JStr ''boolean'')])]),
                                         (''required'',
                                            JArr [JStr ''name'', JStr ''type'', JStr ''content''])])])]),
              (''required'', JArr [JStr ''zoneId'', JStr ''records'']),
              (''additionalProperties'', JBool False)]\<rparr>,
     \<lparr>name = ''list_domains'', description = ''List all domains'',
      inputSchema = empty_schema\<rparr>,
     \<lparr>name = ''get_domain_details'', description = ''Get details of a specific domain'',
      inputSchema = id_schema ''domainId'' ''ID of the domain''\<rparr>,
     \<lparr>name = ''list_certificates'', description = ''List all SSL certificates'',
      inputSchema = empty_schema\<rparr>,
     \<lparr>name = ''get_certificate_details'',
      description = ''Get details of a specific SSL certificate'',
      inputSchema = id_schema ''certificateId'' ''ID of the SSL certificate''\<rparr>,
     \<lparr>name = ''create_certificate'', description = ''Create a new SSL certificate'',
      inputSchema =
        JObj [(''type'', JStr ''object''),
              (''properties'',
                 JObj [(''domainName'',
                          JObj [(''type'', JStr ''string''),
                                (''description'', JStr ''Domain name for the certificate'')]),
                       (''subjectAlternativeNames'',
                          JObj [(''type'', JStr ''array''),
                                (''description'',
                                   JStr ''Additional domain names for the certificate''),
                                (''items'', JObj [(''type'', JStr ''string'')])])]),
              (''required'', JArr [JStr ''domainName'']),
              (''additionalProperties'', JBool False)]\<rparr>,
     \<lparr>name = ''delete_certificate'', description = ''Unassign an SSL certificate'',
      inputSchema = id_schema ''certificateId'' ''ID of the SSL certificate''\<rparr>]"

section \<open>The handlers\<close>

text \<open>
  Reading a property: of \<open>undefined\<close> or \<open>null\<close> it throws a TypeError, of an object it
  gives the property's value, or \<open>undefined\<close> when the object has none of that name. The
  names read in this program are on no prototype, so every other value gives
  \<open>undefined\<close>.
\<close>

definition cannot_read :: "string \<Rightarrow> string \<Rightarrow> exn" where
  "cannot_read what k =
     TypeError (''Cannot read properties of '' @ what @ '' (reading '' @ [CHR 0x27] @ k
                @ [CHR 0x27] @ '')'')"

fun get_prop :: "jsval \<Rightarrow> string \<Rightarrow> exn + jsval" where
  "get_prop JUndefined k = Inl (cannot_read ''undefined'' k)"
| "get_prop JNull k = Inl (cannot_read ''null'' k)"
| "get_prop (JObj kvs) k = Inr (case map_of kvs k of None \<Rightarrow> JUndefined | Some v \<Rightarrow> v)"
| "get_prop v k = Inr JUndefined"

text \<open>Optional chaining \<open>v?.k\<close>: \<open>undefined\<close> where \<open>v\<close> is \<open>undefined\<close> or \<open>null\<close>.\<close>

definition opt_prop :: "jsval \<Rightarrow> string \<Rightarrow> jsval" where
  "opt_prop v k = (case get_prop v k of Inl e \<Rightarrow> JUndefined | Inr x \<Rightarrow> x)"

text \<open>
  One call of an axios instance: the request leaves the process and the remote service
  decides what comes back.
\<close>

definition axios_call ::
  "remote \<Rightarrow> axios_instance \<Rightarrow> http_method \<Rightarrow> string \<Rightarrow> jsval option \<Rightarrow> state
    \<Rightarrow> (exn + axios_response) \<times> state" where
  "axios_call remote c m u b s =
     (let req = \<lparr>client = c, verb = m, url = u, body = b\<rparr>
      in (remote req, s\<lparr>sent := sent s @ [req]\<rparr>))"

text \<open>The envelope every handler builds from a response.\<close>

definition text_result :: "(exn + axios_response) \<times> state \<Rightarrow> (exn + tool_result) \<times> state" where
  "text_result r =
     (case r of
        (Inl e, s) \<Rightarrow> (Inl e, s)
      | (Inr response, s) \<Rightarrow>
          (Inr \<lparr>content = [\<lparr>type = ''text'', text' = JSON_stringify (data response)\<rparr>],
                isError = None\<rparr>, s))"

definition listDnsZones :: "remote \<Rightarrow> state \<Rightarrow> (exn + tool_result) \<times> state" where
  "listDnsZones remote s =
     text_result (axios_call remote (dnsApiClient (this s)) GET ''/v1/zones'' None s)"

definition getDnsZone :: "remote \<Rightarrow> jsval \<Rightarrow> state \<Rightarrow> (exn + tool_result) \<times> state" where
  "getDnsZone remote params s =
     (case get_prop params ''zoneId'' of
        Inl e \<Rightarrow> (Inl e, s)
      | Inr zoneId \<Rightarrow>
          text_result (axios_call remote (dnsApiClient (this s)) GET
                         (''/v1/zones/'' @ to_string zoneId) None s))"

definition updateDnsZone :: "remote \<Rightarrow> jsval \<Rightarrow> state \<Rightarrow> (exn + tool_result) \<times> state" where
  "updateDnsZone remote params s =
     (case get_prop params ''zoneId'' of
        Inl e \<Rightarrow> (Inl e, s)
      | Inr zoneId \<Rightarrow>
          (case get_prop params ''records'' of
             Inl e \<Rightarrow> (Inl e, s)
           | Inr records \<Rightarrow>
               text_result (axios_call remote (dnsApiClient (this s)) PATCH
                              (''/v1/zones/'' @ to_string zoneId)
                              (Some (JObj [(''records'', records)])) s)))"

definition listDomains :: "remote \<Rightarrow> state \<Rightarrow> (exn + tool_result) \<times> state" where
  "listDomains remote s =
     text_result (axios_call remote (domainsApiClient (this s)) GET ''/v1/domainitems'' None s)"

definition getDomainDetails :: "remote \<Rightarrow> jsval \<Rightarrow> state \<Rightarrow> (exn + tool_result) \<times> state" where
  "getDomainDetails remote params s =
     (case get_prop params ''domainId'' of
        Inl e \<Rightarrow> (Inl e, s)
      | Inr domainId \<Rightarrow>
          text_result (axios_call remote (domainsApiClient (this s)) GET
                         (''/v1/domainitems/'' @ to_string domainId) None s))"

definition listCertificates :: "remote \<Rightarrow> state \<Rightarrow> (exn + tool_result) \<times> state" where
  "listCertificates remote s =
     text_result (axios_call remote (sslApiClient (this s)) GET ''/v1/certificates'' None s)"

definition getCertificateDetails ::
  "remote \<Rightarrow> jsval \<Rightarrow> state \<Rightarrow> (exn + tool_result) \<times> state" where
  "getCertificateDetails remote params s =
     (case get_prop params ''certificateId'' of
        Inl e \<Rightarrow> (Inl e, s)
      | Inr certificateId \<Rightarrow>
          text_result (axios_call remote (sslApiClient (this s)) GET
                         (''/v1/certificates/'' @ to_string certificateId) None s))"

definition createCertificate :: "remote \<Rightarrow> jsval \<Rightarrow> state \<Rightarrow> (exn + tool_result) \<times> state" where
  "createCertificate remote params s =
     (case get_prop params ''domainName'' of
        Inl e \<Rightarrow> (Inl e, s)
      | Inr domainName \<Rightarrow>
          (case get_prop params ''subjectAlternativeNames'' of
             Inl e \<Rightarrow> (Inl e, s)
           | Inr sans \<Rightarrow>
               text_result (axios_call remote (sslApiClient (this s)) POST ''/v1/certificates''
                              (Some (JObj [(''domainName'', domainName),
                                           (''subjectAlternativeNames'', js_or sans (JArr []))]))
                              s)))"

definition deleteCertificate :: "remote \<Rightarrow> jsval \<Rightarrow> state \<Rightarrow> (exn + tool_result) \<times> state" where
  "deleteCertificate remote params s =
     (case get_prop params ''certificateId'' of
        Inl e \<Rightarrow> (Inl e, s)
      | Inr certificateId \<Rightarrow>
          text_result (axios_call remote (sslApiClient (this s)) DELETE
                         (''/v1/certificates/'' @ to_string certificateId) None s))"

section \<open>The dispatcher\<close>

datatype call_tool_request = CallToolRequest (params_name: string) (params_arguments: jsval)

text \<open>The body of the \<open>try\<close>: the switch over the tool's name.\<close>

definition call_tool_switch ::
  "remote \<Rightarrow> call_tool_request \<Rightarrow> state \<Rightarrow> (exn + tool_result) \<times> state" where
  "call_tool_switch remote request s =
     (let n = params_name request; args = params_arguments request in
      if n = ''list_dns_zones'' then listDnsZones remote s
      else if n = ''get_dns_zone'' then getDnsZone remote args s
      else if n = ''update_dns_zone'' then updateDnsZone remote args s
      else if n = ''list_domains'' then listDomains remote s
      else if n = ''get_domain_details'' then getDomainDetails remote args s
      else if n = ''list_certificates'' then listCertificates remote s
      else if n = ''get_certificate_details'' then getCertificateDetails remote args s
      else if n = ''create_certificate'' then createCertificate remote args s
      else if n = ''delete_certificate'' then deleteCertificate remote args s
      else (Inl (McpError MethodNotFound (''Unknown tool: '' @ n)), s))"

text \<open>
  The text of the \<open>catch\<close>:
  \<open>`IONOS API error: ${error.response?.data?.message || error.message}`\<close>.
\<close>

fun error_text :: "exn \<Rightarrow> string" where
  "error_text (AxiosError message response) =
     ''IONOS API error: '' @
       to_string
         (js_or (case response of
                   None \<Rightarrow> JUndefined
                 | Some r \<Rightarrow> opt_prop (data r) ''message'')
                (JStr message))"
| "error_text e = []"

text \<open>The handler of \<open>CallToolRequestSchema\<close>: the switch inside \<open>try\<close>, then the \<open>catch\<close>.\<close>

definition call_tool ::
  "remote \<Rightarrow> call_tool_request \<Rightarrow> state \<Rightarrow> (exn + tool_result) \<times> state" where
  "call_tool remote request s =
     (case call_tool_switch remote request s of
        (Inr result, s') \<Rightarrow> (Inr result, s')
      | (Inl error, s') \<Rightarrow>
          (if isAxiosError error then
             (Inr \<lparr>content = [\<lparr>type = ''text'', text' = Some (error_text error)\<rparr>],
                   isError = Some True\<rparr>, s')
           else (Inl error, s')))"

section \<open>Start of the process\<close>

definition axios_create :: "string \<Rightarrow> string \<Rightarrow> axios_instance" where
  "axios_create base key =
     \<lparr>baseURL = base, headers = [(''X-API-Key'', key), (''Accept'', ''application/json'')]\<rparr>"

definition new_IonosMcpServer :: "string \<Rightarrow> IonosMcpServer" where
  "new_IonosMcpServer API_KEY =
     \<lparr>server = \<lparr>server_name = ''ionos-mcp-server'', version = ''0.1.0''\<rparr>,
      dnsApiClient = axios_create ''https://api.hosting.ionos.com/dns'' API_KEY,
      domainsApiClient = axios_create ''https://api.hosting.ionos.com/domains'' API_KEY,
      sslApiClient = axios_create ''https://api.hosting.ionos.com/ssl'' API_KEY\<rparr>"

text \<open>
  The module's top level, given the environment: the check of \<open>IONOS_API_KEY\<close> comes
  first, the server object is built after it.
\<close>

definition start :: "(string \<Rightarrow> string option) \<Rightarrow> exn + state" where
  "start env =
     (case env ''IONOS_API_KEY'' of
        None \<Rightarrow> Inl (Error ''IONOS_API_KEY environment variable is required'')
      | Some API_KEY \<Rightarrow>
          if API_KEY = [] then Inl (Error ''IONOS_API_KEY environment variable is required'')
          else Inr \<lparr>this = new_IonosMcpServer API_KEY, sent = []\<rparr>)"

section \<open>A reader of JSON text\<close>

text \<open>
  What a text denotes as a JSON value: the reference for "the text is equal to the body as
  JSON". It follows the JSON grammar (whitespace between tokens, the string escapes, numbers
  with fraction and exponent, read exactly); \<open>read_value\<close> takes fuel, and \<open>JSON_read\<close>
  gives it the length of the text, which is more than any text uses.
\<close>

definition is_ws :: "char \<Rightarrow> bool" where
  "is_ws c = (c = CHR '' '' \<or> c = CHR 0x0A \<or> c = CHR 0x0D \<or> c = CHR 0x09)"

definition skip_ws :: "string \<Rightarrow> string" where
  "skip_ws s = dropWhile is_ws s"

definition is_digit :: "char \<Rightarrow> bool" where
  "is_digit c = (c \<in> set ''0123456789'')"

definition digit_val :: "char \<Rightarrow> nat" where
  "digit_val c = of_char c - 48"

definition digits_value :: "string \<Rightarrow> nat" where
  "digits_value ds = foldl (\<lambda>a c. 10 * a + digit_val c) 0 ds"

definition pow10 :: "int \<Rightarrow> rat" where
  "pow10 i = (if 0 \<le> i then 10 ^ nat i else 1 / 10 ^ nat (- i))"

text \<open>
  A number of the JSON grammar: an optional minus sign, digits without a leading zero, an
  optional fraction, an optional exponent. Its value is exact.
\<close>

definition read_sign :: "string \<Rightarrow> bool \<times> string" where
  "read_sign s =
     (case s of
        [] \<Rightarrow> (False, [])
      | c # cs \<Rightarrow> if c = CHR ''-'' then (True, cs) else (False, c # cs))"

definition read_int_part :: "string \<Rightarrow> (string \<times> string) option" where
  "read_int_part s =
     (if takeWhile is_digit s = []
         \<or> (hd (takeWhile is_digit s) = CHR ''0'' \<and> tl (takeWhile is_digit s) \<noteq> [])
      then None
      else Some (takeWhile is_digit s, dropWhile is_digit s))"

definition read_fraction :: "string \<Rightarrow> (string \<times> string) option" where
  "read_fraction s =
     (case s of
        [] \<Rightarrow> Some ([], [])
      | c # cs \<Rightarrow>
          if c = CHR ''.'' then
            (if takeWhile is_digit cs = [] then None
             else Some (takeWhile is_digit cs, dropWhile is_digit cs))
          else Some ([], c # cs))"

definition read_exponent_digits :: "bool \<Rightarrow> string \<Rightarrow> (int \<times> string) option" where
  "read_exponent_digits neg s =
     (if takeWhile is_digit s = [] then None
      else Some ((if neg then - int (digits_value (takeWhile is_digit s))
                  else int (digits_value (takeWhile is_digit s))),
                 dropWhile is_digit s))"

definition read_exponent :: "string \<Rightarrow> (int \<times> string) option" where
  "read_exponent s =
     (case s of
        [] \<Rightarrow> Some (0, [])
      | c # cs \<Rightarrow>
          if c = CHR ''e'' \<or> c = CHR ''E'' then
            (case cs of
               [] \<Rightarrow> None
             | d # ds \<Rightarrow>
                 if d = CHR ''-'' then read_exponent_digits True ds
                 else if d = CHR ''+'' then read_exponent_digits False ds
                 else read_exponent_digits False (d # ds))
          else Some (0, c # cs))"

definition number_value :: "bool \<Rightarrow> string \<Rightarrow> string \<Rightarrow> int \<Rightarrow> rat" where
  "number_value neg ds fs e =
     (if neg then - 1 else 1) * of_nat (digits_value (ds @ fs)) * pow10 (e - int (length fs))"

definition read_number :: "string \<Rightarrow> (jsval \<times> string) option" where
  "read_number s =
     (case read_int_part (snd (read_sign s)) of
        None \<Rightarrow> None
      | Some (ds, s2) \<Rightarrow>
          (case read_fraction s2 of
             None \<Rightarrow> None
           | Some (fs, s3) \<Rightarrow>
               (case read_exponent s3 of
                  None \<Rightarrow> None
                | Some (e, s4) \<Rightarrow>
                    Some (JNum (number_value (fst (read_sign s)) ds fs e), s4))))"

definition hex_val :: "char \<Rightarrow> nat option" where
  "hex_val c =
     (if is_digit c then Some (digit_val c)
      else if c \<in> set ''abcdef'' then Some (of_char c - 87)
      else if c \<in> set ''ABCDEF'' then Some (of_char c - 55)
      else None)"

definition unescape :: "char \<Rightarrow> char option" where
  "unescape e =
     (if e = CHR ''b'' then Some (CHR 0x08)
      else if e = CHR ''t'' then Some (CHR 0x09)
      else if e = CHR ''n'' then Some (CHR 0x0A)
      else if e = CHR ''f'' then Some (CHR 0x0C)
      else if e = CHR ''r'' then Some (CHR 0x0D)
      else if e = CHR 0x22 \<or> e = CHR 0x5C \<or> e = CHR ''/'' then Some e
      else None)"

definition hex4 :: "char \<Rightarrow> char \<Rightarrow> char \<Rightarrow> char \<Rightarrow> char option" where
  "hex4 a b c d =
     (case (hex_val a, hex_val b, hex_val c, hex_val d) of
        (Some h1, Some h2, Some h3, Some h4) \<Rightarrow>
          (let n = ((h1 * 16 + h2) * 16 + h3) * 16 + h4
           in if n < 256 then Some (char_of n) else None)
      | _ \<Rightarrow> None)"

fun read_string :: "string \<Rightarrow> (string \<times> string) option" where
  "read_string [] = None"
| "read_string (c # cs) =
     (if c = CHR 0x22 then Some ([], cs)
      else if c = CHR 0x5C then
        (case cs of
           [] \<Rightarrow> None
         | e # r \<Rightarrow>
             if e = CHR ''u'' then
               (case r of
                  h1 # h2 # h3 # h4 # r' \<Rightarrow>
                    (case hex4 h1 h2 h3 h4 of
                       None \<Rightarrow> None
                     | Some x \<Rightarrow>
                         (case read_string r' of
                            None \<Rightarrow> None
                          | Some (t, r'') \<Rightarrow> Some (x # t, r'')))
                | _ \<Rightarrow> None)
             else
               (case unescape e of
                  None \<Rightarrow> None
                | Some x \<Rightarrow>
                    (case read_string r of
                       None \<Rightarrow> None
                     | Some (t, r') \<Rightarrow> Some (x # t, r'))))
      else if (of_char c :: nat) < 32 then None
      else
        (case read_string cs of
           None \<Rightarrow> None
         | Some (t, r) \<Rightarrow> Some (c # t, r)))"

fun read_value :: "nat \<Rightarrow> string \<Rightarrow> (jsval \<times> string) option"
  and read_elems :: "nat \<Rightarrow> string \<Rightarrow> (jsval list \<times> string) option"
  and read_members :: "nat \<Rightarrow> string \<Rightarrow> ((string \<times> jsval) list \<times> string) option" where
  "read_value 0 s = None"
| "read_value (Suc f) s =
     (case s of
        [] \<Rightarrow> None
      | c # cs \<Rightarrow>
          if c = CHR ''n'' then
            (if take 3 cs = ''ull'' then Some (JNull, drop 3 cs) else None)
          else if c = CHR ''t'' then
            (if take 3 cs = ''rue'' then Some (JBool True, drop 3 cs) else None)
          else if c = CHR ''f'' then
            (if take 4 cs = ''alse'' then Some (JBool False, drop 4 cs) else None)
          else if c = CHR 0x22 then
            (case read_string cs of None \<Rightarrow> None | Some (t, r) \<Rightarrow> Some (JStr t, r))
          else if c = CHR ''['' then
            (case skip_ws cs of
               [] \<Rightarrow> None
             | d # ds \<Rightarrow>
                 if d = CHR '']'' then Some (JArr [], ds)
                 else (case read_elems f (d # ds) of
                         None \<Rightarrow> None
                       | Some (xs, r) \<Rightarrow> Some (JArr xs, r)))
          else if c = CHR ''{'' then
            (case skip_ws cs of
               [] \<Rightarrow> None
             | d # ds \<Rightarrow>
                 if d = CHR ''}'' then Some (JObj [], ds)
                 else (case read_members f (d # ds) of
                         None \<Rightarrow> None
                       | Some (kvs, r) \<Rightarrow> Some (JObj kvs, r)))
          else read_number s)"
| "read_elems 0 s = None"
| "read_elems (Suc f) s =
     (case read_value f s of
        None \<Rightarrow> None
      | Some (x, r) \<Rightarrow>
          (case skip_ws r of
             [] \<Rightarrow> None
           | d # ds \<Rightarrow>
               if d = CHR '','' then
                 (case read_elems f (skip_ws ds) of
                    None \<Rightarrow> None
                  | Some (xs, r') \<Rightarrow> Some (x # xs, r'))
               else if d = CHR '']'' then Some ([x], ds)
               else None))"
| "read_members 0 s = None"
| "read_members (Suc f) s =
     (case s of
        [] \<Rightarrow> None
      | q # cs \<Rightarrow>
          if q \<noteq> CHR 0x22 then None
          else
            (case read_string cs of
               None \<Rightarrow> None
             | Some (k, r) \<Rightarrow>
                 (case skip_ws r of
                    [] \<Rightarrow> None
                  | col # r1 \<Rightarrow>
                      if col \<noteq> CHR '':'' then None
                      else
                        (case read_value f (skip_ws r1) of
                           None \<Rightarrow> None
                         | Some (v, r2) \<Rightarrow>
                             (case skip_ws r2 of
                                [] \<Rightarrow> None
                              | d # ds \<Rightarrow>
                                  if d = CHR '','' then
                                    (case read_members f (skip_ws ds) of
                                       None \<Rightarrow> None
                                     | Some (kvs, r3) \<Rightarrow> Some ((k, v) # kvs, r3))
                                  else if d = CHR ''}'' then Some ([(k, v)], ds)
                                  else None)))))"

definition JSON_read :: "string \<Rightarrow> jsval option" where
  "JSON_read s =
     (case read_value (Suc (length s)) (skip_ws s) of
        None \<Rightarrow> None
      | Some (v, r) \<Rightarrow> if skip_ws r = [] then Some v else None)"







section \<open>Reference inputs and notions used by the properties\<close>

definition example_state :: state where
  "example_state = \<lparr>this = new_IonosMcpServer ''prefix.secret'', sent = []\<rparr>"

definition answering :: "jsval \<Rightarrow> remote" where
  "answering b = (\<lambda>req. Inr \<lparr>status = 200, data = b\<rparr>)"

definition failing :: "exn \<Rightarrow> remote" where
  "failing e = (\<lambda>req. Inl e)"

definition path_segment :: "string \<Rightarrow> bool" where
  "path_segment seg =
     (seg \<noteq> [] \<and> seg \<noteq> ''.'' \<and> seg \<noteq> ''..''
      \<and> set seg \<inter> {CHR ''/'', CHR ''?'', CHR ''#''} = {})"

definition matches_pattern :: "string \<Rightarrow> string \<Rightarrow> bool" where
  "matches_pattern prefix u =
     (take (length prefix) u = prefix \<and> path_segment (drop (length prefix) u))"

definition not_found :: exn where
  "not_found =
     AxiosError ''Request failed with status code 404''
       (Some \<lparr>status = 404, data = JObj [(''message'', JStr ''Zone not found'')]\<rparr>)"

definition empty_message :: exn where
  "empty_message =
     AxiosError ''Request failed with status code 500''
       (Some \<lparr>status = 500, data = JObj [(''message'', JStr [])]\<rparr>)"

definition get_z1 :: call_tool_request where
  "get_z1 = CallToolRequest ''get_dns_zone'' (JObj [(''zoneId'', JStr ''z1'')])"

definition get_z1_request :: http_request where
  "get_z1_request =
     \<lparr>client = dnsApiClient (this example_state), verb = GET, url = ''/v1/zones/z1'',
      body = None\<rparr>"



section \<open>Properties\<close>

lemma tool_names:
  "map name tools =
     [''list_dns_zones'', ''get_dns_zone'', ''update_dns_zone'', ''list_domains'',
      ''get_domain_details'', ''list_certificates'', ''get_certificate_details'',
      ''create_certificate'', ''delete_certificate'']"
  by (simp add: tools_def)

lemma get_prop_value:
  "v \<noteq> JUndefined \<Longrightarrow> v \<noteq> JNull \<Longrightarrow> get_prop v k = Inr (opt_prop v k)"
  by (cases v) (simp_all add: opt_prop_def)

lemma opt_prop_object:
  "opt_prop (JObj kvs) k = (case map_of kvs k of None \<Rightarrow> JUndefined | Some v \<Rightarrow> v)"
  by (simp add: opt_prop_def)

subsection \<open>What each handler does with its arguments\<close>

lemma getDnsZone_value:
  "args \<noteq> JUndefined \<Longrightarrow> args \<noteq> JNull \<Longrightarrow>
   getDnsZone remote args s =
     text_result (axios_call remote (dnsApiClient (this s)) GET
                    (''/v1/zones/'' @ to_string (opt_prop args ''zoneId'')) None s)"
  by (simp add: getDnsZone_def get_prop_value)

lemma updateDnsZone_value:
  "args \<noteq> JUndefined \<Longrightarrow> args \<noteq> JNull \<Longrightarrow>
   updateDnsZone remote args s =
     text_result (axios_call remote (dnsApiClient (this s)) PATCH
                    (''/v1/zones/'' @ to_string (opt_prop args ''zoneId''))
                    (Some (JObj [(''records'', opt_prop args ''records'')])) s)"
  by (simp add: updateDnsZone_def get_prop_value)

lemma getDomainDetails_value:
  "args \<noteq> JUndefined \<Longrightarrow> args \<noteq> JNull \<Longrightarrow>
   getDomainDetails remote args s =
     text_result (axios_call remote (domainsApiClient (this s)) GET
                    (''/v1/domainitems/'' @ to_string (opt_prop args ''domainId'')) None s)"
  by (simp add: getDomainDetails_def get_prop_value)

lemma getCertificateDetails_value:
  "args \<noteq> JUndefined \<Longrightarrow> args \<noteq> JNull \<Longrightarrow>
   getCertificateDetails remote args s =
     text_result (axios_call remote (sslApiClient (this s)) GET
                    (''/v1/certificates/'' @ to_string (opt_prop args ''certificateId'')) None s)"
  by (simp add: getCertificateDetails_def get_prop_value)

lemma createCertificate_value:
  "args \<noteq> JUndefined \<Longrightarrow> args \<noteq> JNull \<Longrightarrow>
   createCertificate remote args s =
     text_result (axios_call remote (sslApiClient (this s)) POST ''/v1/certificates''
                    (Some (JObj [(''domainName'', opt_prop args ''domainName''),
                                 (''subjectAlternativeNames'',
                                    js_or (opt_prop args ''subjectAlternativeNames'') (JArr []))]))
                    s)"
  by (simp add: createCertificate_def get_prop_value)

lemma deleteCertificate_value:
  "args \<noteq> JUndefined \<Longrightarrow> args \<noteq> JNull \<Longrightarrow>
   deleteCertificate remote args s =
     text_result (axios_call remote (sslApiClient (this s)) DELETE
                    (''/v1/certificates/'' @ to_string (opt_prop args ''certificateId'')) None s)"
  by (simp add: deleteCertificate_def get_prop_value)

lemma handlers_nullish:
  assumes "args = JUndefined \<or> args = JNull"
  shows "\<exists>m. getDnsZone remote args s = (Inl (TypeError m), s)"
    and "\<exists>m. updateDnsZone remote args s = (Inl (TypeError m), s)"
    and "\<exists>m. getDomainDetails remote args s = (Inl (TypeError m), s)"
    and "\<exists>m. getCertificateDetails remote args s = (Inl (TypeError m), s)"
    and "\<exists>m. createCertificate remote args s = (Inl (TypeError m), s)"
    and "\<exists>m. deleteCertificate remote args s = (Inl (TypeError m), s)"
  using assms
  unfolding getDnsZone_def updateDnsZone_def getDomainDetails_def getCertificateDetails_def
    createCertificate_def deleteCertificate_def
  by (auto simp: cannot_read_def)

subsection \<open>The branches of the switch\<close>

lemma switch_branch:
  "call_tool_switch remote (CallToolRequest ''list_dns_zones'' args) s = listDnsZones remote s"
  "call_tool_switch remote (CallToolRequest ''get_dns_zone'' args) s = getDnsZone remote args s"
  "call_tool_switch remote (CallToolRequest ''update_dns_zone'' args) s = updateDnsZone remote args s"
  "call_tool_switch remote (CallToolRequest ''list_domains'' args) s = listDomains remote s"
  "call_tool_switch remote (CallToolRequest ''get_domain_details'' args) s =
     getDomainDetails remote args s"
  "call_tool_switch remote (CallToolRequest ''list_certificates'' args) s =
     listCertificates remote s"
  "call_tool_switch remote (CallToolRequest ''get_certificate_details'' args) s =
     getCertificateDetails remote args s"
  "call_tool_switch remote (CallToolRequest ''create_certificate'' args) s =
     createCertificate remote args s"
  "call_tool_switch remote (CallToolRequest ''delete_certificate'' args) s =
     deleteCertificate remote args s"
  by (simp_all add: call_tool_switch_def)

lemma switch_default:
  "n \<notin> set (map name tools) \<Longrightarrow>
   call_tool_switch remote (CallToolRequest n args) s =
     (Inl (McpError MethodNotFound (''Unknown tool: '' @ n)), s)"
  by (simp add: tool_names call_tool_switch_def)

lemma axios_call_eq:
  "axios_call remote c m u b s =
     (remote \<lparr>client = c, verb = m, url = u, body = b\<rparr>,
      s\<lparr>sent := sent s @ [\<lparr>client = c, verb = m, url = u, body = b\<rparr>]\<rparr>)"
  by (simp add: axios_call_def Let_def)

text \<open>A branch of the switch sends one request, unless reading the arguments throws.\<close>

lemma switch_handler:
  assumes "n \<in> set (map name tools)"
  shows "(\<exists>m. call_tool_switch remote (CallToolRequest n args) s = (Inl (TypeError m), s))
         \<or> (\<exists>req. call_tool_switch remote (CallToolRequest n args) s =
                     text_result (remote req, s\<lparr>sent := sent s @ [req]\<rparr>))"
proof (cases "args = JUndefined \<or> args = JNull")
  case True
  from assms have "n = ''list_dns_zones'' \<or> n = ''get_dns_zone'' \<or> n = ''update_dns_zone''
      \<or> n = ''list_domains'' \<or> n = ''get_domain_details'' \<or> n = ''list_certificates''
      \<or> n = ''get_certificate_details'' \<or> n = ''create_certificate'' \<or> n = ''delete_certificate''"
    unfolding tool_names by simp
  then show ?thesis
    using handlers_nullish [OF True, of remote s]
    by (elim disjE)
       (simp_all only: switch_branch, auto simp: listDnsZones_def listDomains_def
          listCertificates_def axios_call_eq)
next
  case False
  then have v: "args \<noteq> JUndefined" "args \<noteq> JNull" by simp_all
  from assms have "n = ''list_dns_zones'' \<or> n = ''get_dns_zone'' \<or> n = ''update_dns_zone''
      \<or> n = ''list_domains'' \<or> n = ''get_domain_details'' \<or> n = ''list_certificates''
      \<or> n = ''get_certificate_details'' \<or> n = ''create_certificate'' \<or> n = ''delete_certificate''"
    unfolding tool_names by simp
  then have "\<exists>req. call_tool_switch remote (CallToolRequest n args) s =
                     text_result (remote req, s\<lparr>sent := sent s @ [req]\<rparr>)"
    by (elim disjE)
       (simp_all only: switch_branch getDnsZone_value [OF v] updateDnsZone_value [OF v]
          getDomainDetails_value [OF v] getCertificateDetails_value [OF v]
          createCertificate_value [OF v] deleteCertificate_value [OF v]
          listDnsZones_def listDomains_def listCertificates_def axios_call_eq, blast+)
  then show ?thesis ..
qed

lemma text_result_fst:
  "fst (text_result (r, s')) =
     (case r of Inl e \<Rightarrow> Inl e
      | Inr response \<Rightarrow>
          Inr \<lparr>content = [\<lparr>type = ''text'', text' = JSON_stringify (data response)\<rparr>],
               isError = None\<rparr>)"
  by (simp add: text_result_def split: sum.split)

lemma text_result_snd: "snd (text_result (r, s')) = s'"
  by (simp add: text_result_def split: sum.split)

lemma call_tool_snd: "snd (call_tool remote request s) = snd (call_tool_switch remote request s)"
  by (simp add: call_tool_def split: prod.split sum.split)

lemma call_tool_fst:
  "fst (call_tool remote request s) =
     (case fst (call_tool_switch remote request s) of
        Inr result \<Rightarrow> Inr result
      | Inl error \<Rightarrow>
          if isAxiosError error then
            Inr \<lparr>content = [\<lparr>type = ''text'', text' = Some (error_text error)\<rparr>],
                 isError = Some True\<rparr>
          else Inl error)"
  by (simp add: call_tool_def split: prod.split sum.split)

text \<open>The request an invocation has sent is the one its handler's result comes from.\<close>

lemma sent_request:
  assumes "sent (snd (call_tool remote request s)) = sent s @ [req]"
  shows "call_tool_switch remote request s = text_result (remote req, s\<lparr>sent := sent s @ [req]\<rparr>)"
proof -
  obtain n args where r: "request = CallToolRequest n args" by (cases request)
  show ?thesis
  proof (cases "n \<in> set (map name tools)")
    case False
    from switch_default [OF False] assms show ?thesis
      by (simp add: r call_tool_snd)
  next
    case True
    from switch_handler [OF True, of remote args s] show ?thesis
    proof (elim disjE exE)
      fix m assume "call_tool_switch remote (CallToolRequest n args) s = (Inl (TypeError m), s)"
      with assms show ?thesis by (simp add: r call_tool_snd)
    next
      fix q assume q: "call_tool_switch remote (CallToolRequest n args) s =
        text_result (remote q, s\<lparr>sent := sent s @ [q]\<rparr>)"
      with assms have "q = req" by (simp add: r call_tool_snd text_result_snd)
      with q show ?thesis by (simp add: r)
    qed
  qed
qed

lemma call_tool_sent:
  assumes "call_tool_switch remote request s = text_result (axios_call remote c m u b s)"
  shows "snd (call_tool remote request s) =
           s\<lparr>sent := sent s @ [\<lparr>client = c, verb = m, url = u, body = b\<rparr>]\<rparr>"
  by (simp add: call_tool_snd assms axios_call_eq text_result_snd)

lemma get_z1_switch:
  "call_tool_switch remote get_z1 example_state =
     text_result (axios_call remote (dnsApiClient (this example_state)) GET ''/v1/zones/z1'' None
                    example_state)"
  by (simp add: get_z1_def switch_branch getDnsZone_value opt_prop_object)

lemma get_z1_sent:
  "sent (snd (call_tool remote get_z1 example_state)) = sent example_state @ [get_z1_request]"
  by (simp add: call_tool_sent [OF get_z1_switch] get_z1_request_def)

lemma get_z1_failing:
  "fst (call_tool (failing e) get_z1 example_state) =
     (if isAxiosError e then
        Inr \<lparr>content = [\<lparr>type = ''text'', text' = Some (error_text e)\<rparr>], isError = Some True\<rparr>
      else Inl e)"
  by (simp add: call_tool_fst get_z1_switch axios_call_eq text_result_fst failing_def)

subsection \<open>Failures of the remote service\<close>

text \<open>
  Claim C1, with the prefix that the \<open>catch\<close> writes. When the request an invocation has
  sent fails with an Axios error whose response body is an object with a \<open>message\<close> field
  holding a non-empty string, the dispatcher returns normally: \<open>isError\<close> is true and the
  single content item is of type \<open>text\<close>, its text being \<open>IONOS API error: \<close> followed
  by that message.
\<close>

theorem remote_failure_message_prefixed:
  assumes "sent (snd (call_tool remote request s)) = sent s @ [req]"
    and "remote req = Inl (AxiosError m (Some r))"
    and "data r = JObj kvs"
    and "map_of kvs ''message'' = Some (JStr msg)"
    and "msg \<noteq> []"
  shows "fst (call_tool remote request s) =
           Inr \<lparr>content = [\<lparr>type = ''text'', text' = Some (''IONOS API error: '' @ msg)\<rparr>],
                isError = Some True\<rparr>"
  using assms(2-5)
  by (simp add: call_tool_fst sent_request [OF assms(1)] text_result_fst opt_prop_object js_or_def)

theorem remote_failure_message_prefixed_witness:
  "sent (snd (call_tool (failing not_found) get_z1 example_state)) =
     sent example_state @ [get_z1_request]
   \<and> failing not_found get_z1_request =
       Inl (AxiosError ''Request failed with status code 404''
              (Some \<lparr>status = 404, data = JObj [(''message'', JStr ''Zone not found'')]\<rparr>))
   \<and> map_of [(''message'', JStr ''Zone not found'')] ''message'' = Some (JStr ''Zone not found'')
   \<and> ''Zone not found'' \<noteq> []
   \<and> fst (call_tool (failing not_found) get_z1 example_state) =
       Inr \<lparr>content = [\<lparr>type = ''text'', text' = Some ''IONOS API error: Zone not found''\<rparr>],
            isError = Some True\<rparr>"
proof -
  have h2: "failing not_found get_z1_request =
       Inl (AxiosError ''Request failed with status code 404''
              (Some \<lparr>status = 404, data = JObj [(''message'', JStr ''Zone not found'')]\<rparr>))"
    by (simp add: failing_def not_found_def)
  have h3: "data \<lparr>status = 404, data = JObj [(''message'', JStr ''Zone not found'')]\<rparr> =
      JObj [(''message'', JStr ''Zone not found'')]"
    by simp
  have h4: "map_of [(''message'', JStr ''Zone not found'')] ''message'' = Some (JStr ''Zone not found'')"
    by simp
  have h5: "''Zone not found'' \<noteq> []" by simp
  from remote_failure_message_prefixed
    [where remote = "failing not_found" and req = get_z1_request, OF get_z1_sent h2 h3 h4 h5] get_z1_sent h2 h4
  show ?thesis by simp
qed

text \<open>
  Claim C1 with the text equal to the message alone does not hold: for the message
  \<open>Zone not found\<close> the text is not that message, and for the empty message it is not the
  empty string.
\<close>

theorem message_unaltered_counterexample:
  "fst (call_tool (failing not_found) get_z1 example_state) \<noteq>
     Inr \<lparr>content = [\<lparr>type = ''text'', text' = Some ''Zone not found''\<rparr>], isError = Some True\<rparr>
   \<and> fst (call_tool (failing empty_message) get_z1 example_state) \<noteq>
     Inr \<lparr>content = [\<lparr>type = ''text'', text' = Some []\<rparr>], isError = Some True\<rparr>"
  by (simp add: get_z1_failing not_found_def empty_message_def opt_prop_object js_or_def)

text \<open>
  Claim C9. When the request an invocation has sent fails with an Axios error whose response
  body has a \<open>message\<close> field holding a falsy value (the empty string, \<open>0\<close>,
  \<open>false\<close>, \<open>null\<close>), the single text content is \<open>IONOS API error: \<close> followed by
  the Axios error's own message: the field is tested for truthiness, not for presence.
\<close>

theorem falsy_message_falls_back:
  assumes "sent (snd (call_tool remote request s)) = sent s @ [req]"
    and "remote req = Inl (AxiosError m (Some r))"
    and "data r = JObj kvs"
    and "map_of kvs ''message'' = Some v"
    and "\<not> truthy v"
  shows "fst (call_tool remote request s) =
           Inr \<lparr>content = [\<lparr>type = ''text'', text' = Some (''IONOS API error: '' @ m)\<rparr>],
                isError = Some True\<rparr>"
  using assms(2-5)
  by (simp add: call_tool_fst sent_request [OF assms(1)] text_result_fst opt_prop_object js_or_def)

theorem falsy_message_falls_back_witness:
  "sent (snd (call_tool (failing empty_message) get_z1 example_state)) =
     sent example_state @ [get_z1_request]
   \<and> failing empty_message get_z1_request =
       Inl (AxiosError ''Request failed with status code 500''
              (Some \<lparr>status = 500, data = JObj [(''message'', JStr [])]\<rparr>))
   \<and> map_of [(''message'', JStr [])] ''message'' = Some (JStr [])
   \<and> \<not> truthy (JStr [])
   \<and> fst (call_tool (failing empty_message) get_z1 example_state) =
       Inr \<lparr>content =
              [\<lparr>type = ''text'',
                text' = Some ''IONOS API error: Request failed with status code 500''\<rparr>],
            isError = Some True\<rparr>"
proof -
  have h2: "failing empty_message get_z1_request =
       Inl (AxiosError ''Request failed with status code 500''
              (Some \<lparr>status = 500, data = JObj [(''message'', JStr [])]\<rparr>))"
    by (simp add: failing_def empty_message_def)
  have h3: "data \<lparr>status = 500, data = JObj [(''message'', JStr [])]\<rparr> =
      JObj [(''message'', JStr [])]"
    by simp
  have h4: "map_of [(''message'', JStr [])] ''message'' = Some (JStr [])"
    by simp
  have h5: "\<not> truthy (JStr [])" by simp
  from falsy_message_falls_back
    [where remote = "failing empty_message" and req = get_z1_request, OF get_z1_sent h2 h3 h4 h5] get_z1_sent h2 h4
  show ?thesis by simp
qed

subsection \<open>Faults\<close>

text \<open>
  Claim C3. For a name that is not in the catalog the invocation throws
  \<open>McpError(MethodNotFound, "Unknown tool: " + name)\<close>: the \<open>catch\<close> does not turn it into
  an envelope, and nothing is sent.
\<close>

theorem unknown_tool_fault:
  assumes "n \<notin> set (map name tools)"
  shows "call_tool remote (CallToolRequest n args) s =
           (Inl (McpError MethodNotFound (''Unknown tool: '' @ n)), s)"
  by (simp add: call_tool_def switch_default [OF assms])

theorem unknown_tool_fault_witness:
  "''restart_server'' \<notin> set (map name tools)
   \<and> call_tool (answering JNull) (CallToolRequest ''restart_server'' (JObj [])) example_state =
       (Inl (McpError MethodNotFound ''Unknown tool: restart_server''), example_state)"
proof -
  have h: "''restart_server'' \<notin> set (map name tools)" by (simp add: tool_names)
  from unknown_tool_fault [OF h, of "answering JNull" "JObj []" example_state] h
  show ?thesis by simp
qed

text \<open>
  Claim C4. An exception thrown inside the \<open>try\<close> that \<open>axios.isAxiosError\<close> does not
  recognise leaves the dispatcher unchanged, as a throw to its caller.
\<close>

theorem other_exception_rethrown:
  assumes "call_tool_switch remote request s = (Inl e, s')"
    and "\<not> isAxiosError e"
  shows "call_tool remote request s = (Inl e, s')"
  using assms by (simp add: call_tool_def)

theorem other_exception_rethrown_witness:
  "call_tool_switch (answering JNull) (CallToolRequest ''get_dns_zone'' JUndefined) example_state =
     (Inl (cannot_read ''undefined'' ''zoneId''), example_state)
   \<and> \<not> isAxiosError (cannot_read ''undefined'' ''zoneId'')
   \<and> call_tool (answering JNull) (CallToolRequest ''get_dns_zone'' JUndefined) example_state =
     (Inl (cannot_read ''undefined'' ''zoneId''), example_state)"
proof -
  have h1: "call_tool_switch (answering JNull) (CallToolRequest ''get_dns_zone'' JUndefined)
      example_state = (Inl (cannot_read ''undefined'' ''zoneId''), example_state)"
    by (simp add: switch_branch getDnsZone_def)
  have h2: "\<not> isAxiosError (cannot_read ''undefined'' ''zoneId'')"
    by (simp add: cannot_read_def)
  from other_exception_rethrown [OF h1 h2] h1 h2 show ?thesis by simp
qed

subsection \<open>The catalog and the switch\<close>

lemma switch_list_sends:
  assumes "n \<in> set [''list_dns_zones'', ''list_domains'', ''list_certificates'']"
  shows "\<exists>req. call_tool_switch remote (CallToolRequest n args) s =
                 text_result (remote req, s\<lparr>sent := sent s @ [req]\<rparr>)"
proof -
  from assms have "n = ''list_dns_zones'' \<or> n = ''list_domains'' \<or> n = ''list_certificates''"
    by simp
  then show ?thesis
    by (elim disjE)
       (simp_all only: switch_branch listDnsZones_def listDomains_def listCertificates_def
          axios_call_eq, blast+)
qed

lemma switch_sends:
  assumes "n \<in> set (map name tools)" and v: "args \<noteq> JUndefined" "args \<noteq> JNull"
  shows "\<exists>req. call_tool_switch remote (CallToolRequest n args) s =
                 text_result (remote req, s\<lparr>sent := sent s @ [req]\<rparr>)"
proof -
  from assms(1) have "n = ''list_dns_zones'' \<or> n = ''get_dns_zone'' \<or> n = ''update_dns_zone''
      \<or> n = ''list_domains'' \<or> n = ''get_domain_details'' \<or> n = ''list_certificates''
      \<or> n = ''get_certificate_details'' \<or> n = ''create_certificate'' \<or> n = ''delete_certificate''"
    unfolding tool_names by simp
  then show ?thesis
    by (elim disjE)
       (simp_all only: switch_branch getDnsZone_value [OF v] updateDnsZone_value [OF v]
          getDomainDetails_value [OF v] getCertificateDetails_value [OF v]
          createCertificate_value [OF v] deleteCertificate_value [OF v]
          listDnsZones_def listDomains_def listCertificates_def axios_call_eq, blast+)
qed

lemma switch_nullish_throws:
  assumes "n \<in> set (map name tools)"
    and "n \<notin> set [''list_dns_zones'', ''list_domains'', ''list_certificates'']"
    and "args = JUndefined \<or> args = JNull"
  shows "\<exists>m. call_tool_switch remote (CallToolRequest n args) s = (Inl (TypeError m), s)"
proof -
  from assms(1,2) have "n = ''get_dns_zone'' \<or> n = ''update_dns_zone''
      \<or> n = ''get_domain_details'' \<or> n = ''get_certificate_details''
      \<or> n = ''create_certificate'' \<or> n = ''delete_certificate''"
    unfolding tool_names by auto
  then show ?thesis
    using handlers_nullish [OF assms(3), of remote s]
    by (elim disjE) (simp_all only: switch_branch)
qed

text \<open>
  Claim C2. The names of the catalog are pairwise distinct. A name outside the catalog takes
  the default branch of the switch: method not found, nothing sent. A name of the catalog
  takes a handler's branch: with arguments that are an object (or any value but \<open>undefined\<close>
  and \<open>null\<close>) it sends one request and wraps the remote's answer; the three listing tools do
  so whatever the arguments; the other six throw a TypeError when the arguments are
  \<open>undefined\<close> or \<open>null\<close>, before anything is sent.
\<close>

theorem catalog_completeness:
  "distinct (map name tools)
   \<and> (\<forall>n remote args s. n \<notin> set (map name tools) \<longrightarrow>
          call_tool_switch remote (CallToolRequest n args) s =
            (Inl (McpError MethodNotFound (''Unknown tool: '' @ n)), s))
   \<and> (\<forall>n remote args s. n \<in> set (map name tools) \<longrightarrow> args \<noteq> JUndefined \<longrightarrow> args \<noteq> JNull \<longrightarrow>
          (\<exists>req. call_tool_switch remote (CallToolRequest n args) s =
                   text_result (remote req, s\<lparr>sent := sent s @ [req]\<rparr>)))
   \<and> (\<forall>n remote args s.
          n \<in> set [''list_dns_zones'', ''list_domains'', ''list_certificates''] \<longrightarrow>
          (\<exists>req. call_tool_switch remote (CallToolRequest n args) s =
                   text_result (remote req, s\<lparr>sent := sent s @ [req]\<rparr>)))
   \<and> (\<forall>n remote args s. n \<in> set (map name tools) \<longrightarrow>
          n \<notin> set [''list_dns_zones'', ''list_domains'', ''list_certificates''] \<longrightarrow>
          args = JUndefined \<or> args = JNull \<longrightarrow>
          (\<exists>m. call_tool_switch remote (CallToolRequest n args) s = (Inl (TypeError m), s)))"
proof (intro conjI allI impI)
  show "distinct (map name tools)" by (simp add: tool_names)
next
  fix n remote args s assume "n \<notin> set (map name tools)"
  then show "call_tool_switch remote (CallToolRequest n args) s =
      (Inl (McpError MethodNotFound (''Unknown tool: '' @ n)), s)"
    by (rule switch_default)
next
  fix n remote args s
  assume "n \<in> set (map name tools)" "args \<noteq> JUndefined" "args \<noteq> JNull"
  then show "\<exists>req. call_tool_switch remote (CallToolRequest n args) s =
      text_result (remote req, s\<lparr>sent := sent s @ [req]\<rparr>)"
    by (rule switch_sends)
next
  fix n remote args s
  assume "n \<in> set [''list_dns_zones'', ''list_domains'', ''list_certificates'']"
  then show "\<exists>req. call_tool_switch remote (CallToolRequest n args) s =
      text_result (remote req, s\<lparr>sent := sent s @ [req]\<rparr>)"
    by (rule switch_list_sends)
next
  fix n remote args s
  assume "n \<in> set (map name tools)"
    "n \<notin> set [''list_dns_zones'', ''list_domains'', ''list_certificates'']"
    "args = JUndefined \<or> args = JNull"
  then show "\<exists>m. call_tool_switch remote (CallToolRequest n args) s = (Inl (TypeError m), s)"
    by (rule switch_nullish_throws)
qed

theorem catalog_completeness_witness:
  "''restart_server'' \<notin> set (map name tools)
   \<and> call_tool_switch (answering JNull) (CallToolRequest ''restart_server'' (JObj [])) example_state =
       (Inl (McpError MethodNotFound ''Unknown tool: restart_server''), example_state)
   \<and> ''get_dns_zone'' \<in> set (map name tools)
   \<and> JObj [(''zoneId'', JStr ''z1'')] \<noteq> JUndefined
   \<and> JObj [(''zoneId'', JStr ''z1'')] \<noteq> JNull
   \<and> (\<exists>req. call_tool_switch (answering JNull) get_z1 example_state =
               text_result (answering JNull req,
                            example_state\<lparr>sent := sent example_state @ [req]\<rparr>))
   \<and> call_tool_switch (answering JNull) get_z1 example_state =
       (Inr \<lparr>content = [\<lparr>type = ''text'', text' = Some ''null''\<rparr>], isError = None\<rparr>,
        example_state\<lparr>sent := [get_z1_request]\<rparr>)
   \<and> ''list_domains'' \<in> set [''list_dns_zones'', ''list_domains'', ''list_certificates'']
   \<and> (\<exists>req. call_tool_switch (answering JNull) (CallToolRequest ''list_domains'' JUndefined)
                 example_state =
               text_result (answering JNull req,
                            example_state\<lparr>sent := sent example_state @ [req]\<rparr>))
   \<and> ''get_dns_zone'' \<notin> set [''list_dns_zones'', ''list_domains'', ''list_certificates'']
   \<and> (\<exists>m. call_tool_switch (answering JNull) (CallToolRequest ''get_dns_zone'' JUndefined)
               example_state = (Inl (TypeError m), example_state))"
proof -
  have a: "''restart_server'' \<notin> set (map name tools)" by (simp add: tool_names)
  have b: "''get_dns_zone'' \<in> set (map name tools)" by (simp add: tool_names)
  have c: "''list_domains'' \<in> set [''list_dns_zones'', ''list_domains'', ''list_certificates'']"
    by simp
  have d: "''get_dns_zone'' \<notin> set [''list_dns_zones'', ''list_domains'', ''list_certificates'']"
    by simp
  have e: "JObj [(''zoneId'', JStr ''z1'')] \<noteq> JUndefined" "JObj [(''zoneId'', JStr ''z1'')] \<noteq> JNull"
    by simp_all
  have f: "JUndefined = JUndefined \<or> JUndefined = JNull" by simp
  have sent_example: "sent example_state = []" by (simp add: example_state_def)
  from catalog_completeness a
  have 1: "call_tool_switch (answering JNull) (CallToolRequest ''restart_server'' (JObj []))
          example_state =
        (Inl (McpError MethodNotFound (''Unknown tool: '' @ ''restart_server'')), example_state)"
    by blast
  from catalog_completeness b e
  have 2: "\<exists>req. call_tool_switch (answering JNull)
            (CallToolRequest ''get_dns_zone'' (JObj [(''zoneId'', JStr ''z1'')])) example_state =
          text_result (answering JNull req, example_state\<lparr>sent := sent example_state @ [req]\<rparr>)"
    by blast
  from catalog_completeness c
  have 3: "\<exists>req. call_tool_switch (answering JNull) (CallToolRequest ''list_domains'' JUndefined)
            example_state =
          text_result (answering JNull req, example_state\<lparr>sent := sent example_state @ [req]\<rparr>)"
    by blast
  from catalog_completeness b d f
  have 4: "\<exists>m. call_tool_switch (answering JNull) (CallToolRequest ''get_dns_zone'' JUndefined)
            example_state = (Inl (TypeError m), example_state)"
    by blast
  have 5: "call_tool_switch (answering JNull) get_z1 example_state =
       (Inr \<lparr>content = [\<lparr>type = ''text'', text' = Some ''null''\<rparr>], isError = None\<rparr>,
        example_state\<lparr>sent := [get_z1_request]\<rparr>)"
    using sent_example
    by (simp add: get_z1_switch axios_call_eq text_result_def answering_def JSON_stringify_def
        get_z1_request_def)
  from 1 2 3 4 5 a b c d e show ?thesis by (simp add: get_z1_def)
qed

subsection \<open>The requests that leave the process\<close>

text \<open>
  Claim C5. \<open>create_certificate\<close> with a \<open>domainName\<close> and no (or an undefined)
  \<open>subjectAlternativeNames\<close> sends exactly one request: a POST of
  \<open>{domainName, subjectAlternativeNames: []}\<close> to \<open>/v1/certificates\<close> on the SSL client.
\<close>

theorem create_certificate_default:
  assumes "map_of kvs ''domainName'' = Some d"
    and "map_of kvs ''subjectAlternativeNames'' = None
         \<or> map_of kvs ''subjectAlternativeNames'' = Some JUndefined"
  shows "snd (call_tool remote (CallToolRequest ''create_certificate'' (JObj kvs)) s) =
           s\<lparr>sent := sent s @
               [\<lparr>client = sslApiClient (this s), verb = POST, url = ''/v1/certificates'',
                 body = Some (JObj [(''domainName'', d),
                                    (''subjectAlternativeNames'', JArr [])])\<rparr>]\<rparr>"
proof -
  from assms(2) have "js_or (opt_prop (JObj kvs) ''subjectAlternativeNames'') (JArr []) = JArr []"
    by (auto simp: opt_prop_object js_or_def)
  moreover from assms(1) have "opt_prop (JObj kvs) ''domainName'' = d"
    by (simp add: opt_prop_object)
  ultimately show ?thesis
    using call_tool_sent [of remote "CallToolRequest ''create_certificate'' (JObj kvs)" s]
    by (simp add: switch_branch createCertificate_value)
qed

theorem create_certificate_default_witness:
  "map_of [(''domainName'', JStr ''example.com'')] ''domainName'' = Some (JStr ''example.com'')
   \<and> map_of [(''domainName'', JStr ''example.com'')] ''subjectAlternativeNames'' = None
   \<and> snd (call_tool (answering JNull)
             (CallToolRequest ''create_certificate'' (JObj [(''domainName'', JStr ''example.com'')]))
             example_state) =
       example_state\<lparr>sent :=
         [\<lparr>client = axios_create ''https://api.hosting.ionos.com/ssl'' ''prefix.secret'',
           verb = POST, url = ''/v1/certificates'',
           body = Some (JObj [(''domainName'', JStr ''example.com''),
                              (''subjectAlternativeNames'', JArr [])])\<rparr>]\<rparr>"
proof -
  have h1: "map_of [(''domainName'', JStr ''example.com'')] ''domainName'' =
      Some (JStr ''example.com'')"
    by simp
  have h2: "map_of [(''domainName'', JStr ''example.com'')] ''subjectAlternativeNames'' = None
      \<or> map_of [(''domainName'', JStr ''example.com'')] ''subjectAlternativeNames'' =
          Some JUndefined"
    by simp
  from create_certificate_default [OF h1 h2, of "answering JNull" example_state] h1
  show ?thesis by (simp add: example_state_def new_IonosMcpServer_def)
qed

text \<open>
  Claim C7. \<open>update_dns_zone\<close> with \<open>zoneId\<close> and \<open>records\<close> sends exactly one request,
  a PATCH to \<open>/v1/zones/{zoneId}\<close> on the DNS client whose body is \<open>{records}\<close> and
  nothing else of the arguments, and leaves the server object as it was.
\<close>

theorem update_dns_zone_request:
  assumes "map_of kvs ''zoneId'' = Some zoneId"
    and "map_of kvs ''records'' = Some records"
  shows "snd (call_tool remote (CallToolRequest ''update_dns_zone'' (JObj kvs)) s) =
           s\<lparr>sent := sent s @
               [\<lparr>client = dnsApiClient (this s), verb = PATCH,
                 url = ''/v1/zones/'' @ to_string zoneId,
                 body = Some (JObj [(''records'', records)])\<rparr>]\<rparr>
         \<and> this (snd (call_tool remote (CallToolRequest ''update_dns_zone'' (JObj kvs)) s)) = this s"
proof -
  from assms have "opt_prop (JObj kvs) ''zoneId'' = zoneId" "opt_prop (JObj kvs) ''records'' = records"
    by (simp_all add: opt_prop_object)
  then show ?thesis
    using call_tool_sent [of remote "CallToolRequest ''update_dns_zone'' (JObj kvs)" s]
    by (simp add: switch_branch updateDnsZone_value)
qed

theorem update_dns_zone_request_witness:
  "map_of [(''zoneId'', JStr ''z1''), (''records'', JArr []), (''force'', JBool True)] ''zoneId'' =
     Some (JStr ''z1'')
   \<and> map_of [(''zoneId'', JStr ''z1''), (''records'', JArr []), (''force'', JBool True)] ''records'' =
     Some (JArr [])
   \<and> snd (call_tool (answering JNull)
             (CallToolRequest ''update_dns_zone''
                (JObj [(''zoneId'', JStr ''z1''), (''records'', JArr []), (''force'', JBool True)]))
             example_state) =
       example_state\<lparr>sent :=
         [\<lparr>client = axios_create ''https://api.hosting.ionos.com/dns'' ''prefix.secret'',
           verb = PATCH, url = ''/v1/zones/z1'',
           body = Some (JObj [(''records'', JArr [])])\<rparr>]\<rparr>"
proof -
  have h1: "map_of [(''zoneId'', JStr ''z1''), (''records'', JArr []), (''force'', JBool True)]
      ''zoneId'' = Some (JStr ''z1'')"
    by simp
  have h2: "map_of [(''zoneId'', JStr ''z1''), (''records'', JArr []), (''force'', JBool True)]
      ''records'' = Some (JArr [])"
    by simp
  from update_dns_zone_request [OF h1 h2, of "answering JNull" example_state] h1 h2
  show ?thesis by (simp add: example_state_def new_IonosMcpServer_def)
qed

lemma id_path_escapes:
  "\<not> matches_pattern p (p @ ''z1/../../domainitems?x=1'')"
  by (simp add: matches_pattern_def path_segment_def)

text \<open>
  Claim C10. For a string id the four handlers with an id send one request whose path is the
  fixed prefix followed by the id as it is; for some ids that path is not the prefix followed
  by one path segment.
\<close>

theorem id_path_concatenated:
  assumes "map_of zs ''zoneId'' = Some (JStr z)"
    and "map_of ds ''domainId'' = Some (JStr d)"
    and "map_of cs ''certificateId'' = Some (JStr c)"
  shows "snd (call_tool remote (CallToolRequest ''get_dns_zone'' (JObj zs)) s) =
           s\<lparr>sent := sent s @ [\<lparr>client = dnsApiClient (this s), verb = GET,
                                 url = ''/v1/zones/'' @ z, body = None\<rparr>]\<rparr>
         \<and> snd (call_tool remote (CallToolRequest ''get_domain_details'' (JObj ds)) s) =
           s\<lparr>sent := sent s @ [\<lparr>client = domainsApiClient (this s), verb = GET,
                                 url = ''/v1/domainitems/'' @ d, body = None\<rparr>]\<rparr>
         \<and> snd (call_tool remote (CallToolRequest ''get_certificate_details'' (JObj cs)) s) =
           s\<lparr>sent := sent s @ [\<lparr>client = sslApiClient (this s), verb = GET,
                                 url = ''/v1/certificates/'' @ c, body = None\<rparr>]\<rparr>
         \<and> snd (call_tool remote (CallToolRequest ''delete_certificate'' (JObj cs)) s) =
           s\<lparr>sent := sent s @ [\<lparr>client = sslApiClient (this s), verb = DELETE,
                                 url = ''/v1/certificates/'' @ c, body = None\<rparr>]\<rparr>
         \<and> (\<exists>i. \<not> matches_pattern ''/v1/zones/''
                  (url (last (sent (snd (call_tool remote
                     (CallToolRequest ''get_dns_zone'' (JObj [(''zoneId'', JStr i)])) s))))))
         \<and> (\<exists>i. \<not> matches_pattern ''/v1/domainitems/''
                  (url (last (sent (snd (call_tool remote
                     (CallToolRequest ''get_domain_details'' (JObj [(''domainId'', JStr i)])) s))))))
         \<and> (\<exists>i. \<not> matches_pattern ''/v1/certificates/''
                  (url (last (sent (snd (call_tool remote
                     (CallToolRequest ''get_certificate_details''
                        (JObj [(''certificateId'', JStr i)])) s))))))
         \<and> (\<exists>i. \<not> matches_pattern ''/v1/certificates/''
                  (url (last (sent (snd (call_tool remote
                     (CallToolRequest ''delete_certificate''
                        (JObj [(''certificateId'', JStr i)])) s))))))"
proof -
  have zone: "snd (call_tool remote (CallToolRequest ''get_dns_zone'' (JObj kvs)) s) =
      s\<lparr>sent := sent s @ [\<lparr>client = dnsApiClient (this s), verb = GET,
                            url = ''/v1/zones/'' @ i, body = None\<rparr>]\<rparr>"
    if "map_of kvs ''zoneId'' = Some (JStr i)" for kvs i
    using that call_tool_sent [of remote "CallToolRequest ''get_dns_zone'' (JObj kvs)" s]
    by (simp add: switch_branch getDnsZone_value opt_prop_object)
  have domain: "snd (call_tool remote (CallToolRequest ''get_domain_details'' (JObj kvs)) s) =
      s\<lparr>sent := sent s @ [\<lparr>client = domainsApiClient (this s), verb = GET,
                            url = ''/v1/domainitems/'' @ i, body = None\<rparr>]\<rparr>"
    if "map_of kvs ''domainId'' = Some (JStr i)" for kvs i
    using that call_tool_sent [of remote "CallToolRequest ''get_domain_details'' (JObj kvs)" s]
    by (simp add: switch_branch getDomainDetails_value opt_prop_object)
  have cert: "snd (call_tool remote (CallToolRequest ''get_certificate_details'' (JObj kvs)) s) =
      s\<lparr>sent := sent s @ [\<lparr>client = sslApiClient (this s), verb = GET,
                            url = ''/v1/certificates/'' @ i, body = None\<rparr>]\<rparr>"
    if "map_of kvs ''certificateId'' = Some (JStr i)" for kvs i
    using that call_tool_sent [of remote "CallToolRequest ''get_certificate_details'' (JObj kvs)" s]
    by (simp add: switch_branch getCertificateDetails_value opt_prop_object)
  have del: "snd (call_tool remote (CallToolRequest ''delete_certificate'' (JObj kvs)) s) =
      s\<lparr>sent := sent s @ [\<lparr>client = sslApiClient (this s), verb = DELETE,
                            url = ''/v1/certificates/'' @ i, body = None\<rparr>]\<rparr>"
    if "map_of kvs ''certificateId'' = Some (JStr i)" for kvs i
    using that call_tool_sent [of remote "CallToolRequest ''delete_certificate'' (JObj kvs)" s]
    by (simp add: switch_branch deleteCertificate_value opt_prop_object)
  have "\<not> matches_pattern ''/v1/zones/''
      (url (last (sent (snd (call_tool remote (CallToolRequest ''get_dns_zone''
         (JObj [(''zoneId'', JStr ''z1/../../domainitems?x=1'')])) s)))))"
    using id_path_escapes [of "''/v1/zones/''"] by (simp add: zone)
  moreover have "\<not> matches_pattern ''/v1/domainitems/''
      (url (last (sent (snd (call_tool remote (CallToolRequest ''get_domain_details''
         (JObj [(''domainId'', JStr ''z1/../../domainitems?x=1'')])) s)))))"
    using id_path_escapes [of "''/v1/domainitems/''"] by (simp add: domain)
  moreover have "\<not> matches_pattern ''/v1/certificates/''
      (url (last (sent (snd (call_tool remote (CallToolRequest ''get_certificate_details''
         (JObj [(''certificateId'', JStr ''z1/../../domainitems?x=1'')])) s)))))"
    using id_path_escapes [of "''/v1/certificates/''"] by (simp add: cert)
  moreover have "\<not> matches_pattern ''/v1/certificates/''
      (url (last (sent (snd (call_tool remote (CallToolRequest ''delete_certificate''
         (JObj [(''certificateId'', JStr ''z1/../../domainitems?x=1'')])) s)))))"
    using id_path_escapes [of "''/v1/certificates/''"] by (simp add: del)
  ultimately show ?thesis
    using zone [OF assms(1)] domain [OF assms(2)] cert [OF assms(3)] del [OF assms(3)]
    by blast
qed

theorem id_path_concatenated_witness:
  "map_of [(''zoneId'', JStr ''../x'')] ''zoneId'' = Some (JStr ''../x'')
   \<and> map_of [(''domainId'', JStr ''a/b'')] ''domainId'' = Some (JStr ''a/b'')
   \<and> map_of [(''certificateId'', JStr ''c?d'')] ''certificateId'' = Some (JStr ''c?d'')
   \<and> sent (snd (call_tool (answering JNull)
                   (CallToolRequest ''get_dns_zone'' (JObj [(''zoneId'', JStr ''../x'')]))
                   example_state)) =
       [\<lparr>client = axios_create ''https://api.hosting.ionos.com/dns'' ''prefix.secret'',
         verb = GET, url = ''/v1/zones/../x'', body = None\<rparr>]
   \<and> sent (snd (call_tool (answering JNull)
                   (CallToolRequest ''get_domain_details'' (JObj [(''domainId'', JStr ''a/b'')]))
                   example_state)) =
       [\<lparr>client = axios_create ''https://api.hosting.ionos.com/domains'' ''prefix.secret'',
         verb = GET, url = ''/v1/domainitems/a/b'', body = None\<rparr>]
   \<and> sent (snd (call_tool (answering JNull)
                   (CallToolRequest ''get_certificate_details''
                      (JObj [(''certificateId'', JStr ''c?d'')]))
                   example_state)) =
       [\<lparr>client = axios_create ''https://api.hosting.ionos.com/ssl'' ''prefix.secret'',
         verb = GET, url = ''/v1/certificates/c?d'', body = None\<rparr>]
   \<and> sent (snd (call_tool (answering JNull)
                   (CallToolRequest ''delete_certificate'' (JObj [(''certificateId'', JStr ''c?d'')]))
                   example_state)) =
       [\<lparr>client = axios_create ''https://api.hosting.ionos.com/ssl'' ''prefix.secret'',
         verb = DELETE, url = ''/v1/certificates/c?d'', body = None\<rparr>]
   \<and> \<not> matches_pattern ''/v1/zones/'' ''/v1/zones/../x''
   \<and> \<not> matches_pattern ''/v1/domainitems/'' ''/v1/domainitems/a/b''
   \<and> \<not> matches_pattern ''/v1/certificates/'' ''/v1/certificates/c?d''"
proof -
  have h1: "map_of [(''zoneId'', JStr ''../x'')] ''zoneId'' = Some (JStr ''../x'')" by simp
  have h2: "map_of [(''domainId'', JStr ''a/b'')] ''domainId'' = Some (JStr ''a/b'')" by simp
  have h3: "map_of [(''certificateId'', JStr ''c?d'')] ''certificateId'' = Some (JStr ''c?d'')"
    by simp
  have "\<not> matches_pattern ''/v1/zones/'' ''/v1/zones/../x''"
    "\<not> matches_pattern ''/v1/domainitems/'' ''/v1/domainitems/a/b''"
    "\<not> matches_pattern ''/v1/certificates/'' ''/v1/certificates/c?d''"
    by (simp_all add: matches_pattern_def path_segment_def)
  with id_path_concatenated [OF h1 h2 h3, of "answering JNull" example_state] h1 h2 h3
  show ?thesis by (simp add: example_state_def new_IonosMcpServer_def)
qed

subsection \<open>The start of the process\<close>

text \<open>
  Claim C8. When \<open>IONOS_API_KEY\<close> is absent or empty, the start of the process throws and
  no server object (hence no client and no handler) exists.
\<close>

theorem missing_api_key_fatal:
  assumes "env ''IONOS_API_KEY'' = None \<or> env ''IONOS_API_KEY'' = Some []"
  shows "start env = Inl (Error ''IONOS_API_KEY environment variable is required'')"
  using assms by (auto simp: start_def)

theorem missing_api_key_fatal_witness:
  "(Map.empty ''IONOS_API_KEY'' = None \<or> Map.empty ''IONOS_API_KEY'' = Some [])
   \<and> start Map.empty = Inl (Error ''IONOS_API_KEY environment variable is required'')
   \<and> start [''IONOS_API_KEY'' \<mapsto> []] =
       Inl (Error ''IONOS_API_KEY environment variable is required'')"
proof -
  have h: "Map.empty ''IONOS_API_KEY'' = None \<or> Map.empty ''IONOS_API_KEY'' = Some []" by simp
  have h': "[''IONOS_API_KEY'' \<mapsto> []] ''IONOS_API_KEY'' = None
      \<or> [''IONOS_API_KEY'' \<mapsto> []] ''IONOS_API_KEY'' = Some []" by simp
  from missing_api_key_fatal [of Map.empty, OF h]
    missing_api_key_fatal [of "[''IONOS_API_KEY'' \<mapsto> []]", OF h'] show ?thesis by simp
qed

subsection \<open>The pretty-printed text reads back as the value\<close>









subsection \<open>Reading a number in front of more text\<close>





















subsection \<open>Whitespace\<close>




subsection \<open>The text of a JSON value\<close>









subsection \<open>Steps of the reader\<close>












subsection \<open>Reading back a list of elements or members\<close>




subsection \<open>Reading back a value\<close>





subsection \<open>The text of \<open>2 ^ 63\<close>\<close>

text \<open>
  No decimal of fewer than 16 digits rounds to \<open>2 ^ 63\<close>; of those with 16 digits,
  \<open>9223372036854776 * 10 ^ 3\<close> does.
\<close>

lemma candidates_2_63:
  "\<not> rounds_to (9000000000000000000, 1) 9223372036854775808 1"
  "\<not> rounds_to (10000000000000000000, 1) 9223372036854775808 1"
  "\<not> rounds_to (9200000000000000000, 1) 9223372036854775808 1"
  "\<not> rounds_to (9300000000000000000, 1) 9223372036854775808 1"
  "\<not> rounds_to (9220000000000000000, 1) 9223372036854775808 1"
  "\<not> rounds_to (9230000000000000000, 1) 9223372036854775808 1"
  "\<not> rounds_to (9223000000000000000, 1) 9223372036854775808 1"
  "\<not> rounds_to (9224000000000000000, 1) 9223372036854775808 1"
  "\<not> rounds_to (9223300000000000000, 1) 9223372036854775808 1"
  "\<not> rounds_to (9223400000000000000, 1) 9223372036854775808 1"
  "\<not> rounds_to (9223370000000000000, 1) 9223372036854775808 1"
  "\<not> rounds_to (9223380000000000000, 1) 9223372036854775808 1"
  "\<not> rounds_to (9223372000000000000, 1) 9223372036854775808 1"
  "\<not> rounds_to (9223373000000000000, 1) 9223372036854775808 1"
  "\<not> rounds_to (9223372000000000000, 1) 9223372036854775808 1"
  "\<not> rounds_to (9223372100000000000, 1) 9223372036854775808 1"
  "\<not> rounds_to (9223372030000000000, 1) 9223372036854775808 1"
  "\<not> rounds_to (9223372040000000000, 1) 9223372036854775808 1"
  "\<not> rounds_to (9223372036000000000, 1) 9223372036854775808 1"
  "\<not> rounds_to (9223372037000000000, 1) 9223372036854775808 1"
  "\<not> rounds_to (9223372036800000000, 1) 9223372036854775808 1"
  "\<not> rounds_to (9223372036900000000, 1) 9223372036854775808 1"
  "\<not> rounds_to (9223372036850000000, 1) 9223372036854775808 1"
  "\<not> rounds_to (9223372036860000000, 1) 9223372036854775808 1"
  "\<not> rounds_to (9223372036854000000, 1) 9223372036854775808 1"
  "\<not> rounds_to (9223372036855000000, 1) 9223372036854775808 1"
  "\<not> rounds_to (9223372036854700000, 1) 9223372036854775808 1"
  "\<not> rounds_to (9223372036854800000, 1) 9223372036854775808 1"
  "\<not> rounds_to (9223372036854770000, 1) 9223372036854775808 1"
  "\<not> rounds_to (9223372036854780000, 1) 9223372036854775808 1"
  "\<not> rounds_to (9223372036854775000, 1) 9223372036854775808 1"
  "rounds_to (9223372036854776000, 1) 9223372036854775808 1"
  by (simp_all add: rounds_to_def to_double_def floor_log_def scaled_def Let_def bits.simps
      nearest_even_def)

lemma shortest_2_63: "shortest 17 1 9223372036854775808 1 19 = (9223372036854776, 19)"
  by (simp add: shortest.simps [of _ _ 9223372036854775808 1 19] scaled_def Let_def
      candidates_2_63)

lemma number_to_string_2_63: "number_to_string 9223372036854775808 = ''9223372036854776000''"
  by (simp add: number_to_string_def positive_to_string_def shortest_2_63 floor_log_def
      scaled_def Let_def format_number_def nat_digits.simps digit_char_def zeros.simps)

lemma is_double_2_63: "is_double 9223372036854775808"
  by (simp add: is_double_def rounds_to_def to_double_def floor_log_def scaled_def Let_def
      bits.simps nearest_even_def)

lemma JSON_read_2_63_text: "JSON_read ''9223372036854776000'' = Some (JNum 9223372036854776000)"
  by (simp add: JSON_read_def skip_ws_def is_ws_def read_number_def read_sign_def
      read_int_part_def read_fraction_def read_exponent_def number_value_def digits_value_def
      digit_val_def is_digit_def pow10_def)

lemma get_z1_answering:
  "fst (call_tool (answering b) get_z1 example_state) =
     Inr \<lparr>content = [\<lparr>type = ''text'', text' = JSON_stringify b\<rparr>], isError = None\<rparr>"
  by (simp add: call_tool_fst get_z1_switch axios_call_eq text_result_fst answering_def)

text \<open>
  Claim C6 with the text equal to the body for every response does not hold: the double
  \<open>2 ^ 63\<close> is written \<open>9223372036854776000\<close>, the shortest decimal that rounds to it, and
  that text denotes another number.
\<close>

theorem text_equal_to_body_counterexample:
  "is_double 9223372036854775808
   \<and> fst (call_tool (answering (JNum 9223372036854775808)) get_z1 example_state) =
       Inr \<lparr>content = [\<lparr>type = ''text'', text' = Some ''9223372036854776000''\<rparr>],
            isError = None\<rparr>
   \<and> JSON_read ''9223372036854776000'' = Some (JNum 9223372036854776000)
   \<and> JNum 9223372036854776000 \<noteq> JNum 9223372036854775808"
  by (simp add: is_double_2_63 get_z1_answering JSON_stringify_def number_to_string_2_63
      JSON_read_2_63_text)





end
